theory Spec2Isabelle
  imports Complex_Main
begin

section \<open>Values and exceptions\<close>

text \<open>
  The scripts exchange parsed JSON documents. A Python \<open>dict\<close> keeps its insertion order,
  so an object is an association list; numbers (Python \<open>int\<close> and \<open>float\<close>) are exact
  reals, which leaves floating-point rounding, \<open>nan\<close> and \<open>inf\<close> outside the model.
\<close>

datatype json =
    JNull
  | JBool bool
  | JNum real
  | JStr string
  | JList "json list"
  | JObj "(string \<times> json) list"

type_synonym dict = "(string \<times> json) list"

datatype exn =
    KeyError | TypeError | IndexError | AttributeError | ZeroDivisionError | ValueError
  | SameFileError | FileNotFoundError | OverflowError | JSONDecodeError

text \<open>Sequencing of steps that may raise: the first exception ends the computation.\<close>

definition ebind :: "exn + 'a \<Rightarrow> ('a \<Rightarrow> exn + 'b) \<Rightarrow> exn + 'b" where
  "ebind m f = (case m of Inl e \<Rightarrow> Inl e | Inr x \<Rightarrow> f x)"

text \<open>\<open>bool(v)\<close>, as \<open>if v:\<close> and \<open>and\<close>/\<open>or\<close> evaluate it.\<close>

fun truthy :: "json \<Rightarrow> bool" where
  "truthy JNull = False"
| "truthy (JBool b) = b"
| "truthy (JNum x) = (x \<noteq> 0)"
| "truthy (JStr s) = (s \<noteq> [])"
| "truthy (JList xs) = (xs \<noteq> [])"
| "truthy (JObj d) = (d \<noteq> [])"

text \<open>\<open>d.get(k, default)\<close> and \<open>d.get(k)\<close> on a dict.\<close>

definition dict_get :: "dict \<Rightarrow> string \<Rightarrow> json \<Rightarrow> json" where
  "dict_get d k dflt = (case map_of d k of None \<Rightarrow> dflt | Some v \<Rightarrow> v)"

text \<open>\<open>d[k] = v\<close>: an existing key keeps its position, a new key goes to the end.\<close>

fun dict_set :: "'k \<Rightarrow> 'v \<Rightarrow> ('k \<times> 'v) list \<Rightarrow> ('k \<times> 'v) list" where
  "dict_set k v [] = [(k, v)]"
| "dict_set k v ((k', v') # d) = (if k = k' then (k, v) # d else (k', v') # dict_set k v d)"

text \<open>\<open>v[k]\<close> for a string key \<open>k\<close>.\<close>

fun subscr :: "json \<Rightarrow> string \<Rightarrow> exn + json" where
  "subscr (JObj d) k = (case map_of d k of None \<Rightarrow> Inl KeyError | Some v \<Rightarrow> Inr v)"
| "subscr v k = Inl TypeError"



text \<open>
  The number an arithmetic operator or an ordering comparison against a number sees:
  \<open>True\<close> and \<open>False\<close> count as 1 and 0, every other non-number raises \<open>TypeError\<close>.
\<close>

fun num_of :: "json \<Rightarrow> exn + real" where
  "num_of (JNum x) = Inr x"
| "num_of (JBool b) = Inr (if b then 1 else 0)"
| "num_of v = Inl TypeError"

text \<open>\<open>k in s\<close> for strings: \<open>k\<close> occurs in \<open>s\<close> as a contiguous piece.\<close>

fun starts_with :: "string \<Rightarrow> string \<Rightarrow> bool" where
  "starts_with [] s = True"
| "starts_with (c # k) [] = False"
| "starts_with (c # k) (c' # s) = (c = c' \<and> starts_with k s)"

fun str_contains :: "string \<Rightarrow> string \<Rightarrow> bool" where
  "str_contains k [] = (k = [])"
| "str_contains k (c # s) = (starts_with k (c # s) \<or> str_contains k s)"

text \<open>\<open>k in v\<close> for a string \<open>k\<close>.\<close>

fun py_in :: "string \<Rightarrow> json \<Rightarrow> exn + bool" where
  "py_in k (JObj d) = Inr (map_of d k \<noteq> None)"
| "py_in k (JList xs) = Inr (List.member xs (JStr k))"
| "py_in k (JStr s) = Inr (str_contains k s)"
| "py_in k v = Inl TypeError"

text \<open>
  \<open>round(x, n)\<close>: to the nearest multiple of \<open>10^-n\<close>, a tie going to the even one.
\<close>

definition round_half_even :: "real \<Rightarrow> int" where
  "round_half_even x =
     (let f = \<lfloor>x\<rfloor>; d = x - of_int f
      in if d < 1/2 then f else if 1/2 < d then f + 1 else if even f then f else f + 1)"

definition py_round :: "real \<Rightarrow> nat \<Rightarrow> real" where
  "py_round x n = of_int (round_half_even (x * 10 ^ n)) / 10 ^ n"

section \<open>Dewpoint (Magnus formula), at its three call sites\<close>

text \<open>
  \<open>fetch_local_weather.parse_to_standard_format\<close>, lines 165-170:
  \<^verbatim>\<open>a, b = 17.27, 237.7
  alpha = ((a * tc) / (b + tc)) + (rh / 100.0)
  dewpoint = (b * alpha) / (a - alpha)
  current["dewpoint_c"] = round(dewpoint, 1)\<close>
  Both divisions raise \<open>ZeroDivisionError\<close> on a zero divisor.
\<close>

definition dewpoint_local :: "real \<Rightarrow> real \<Rightarrow> exn + real" where
  "dewpoint_local tc rh =
     (let a = 17.27; b = 237.7 in
      if b + tc = 0 then Inl ZeroDivisionError
      else let alpha = ((a * tc) / (b + tc)) + (rh / 100) in
        if a - alpha = 0 then Inl ZeroDivisionError
        else let dewpoint = (b * alpha) / (a - alpha) in Inr (py_round dewpoint 1))"

text \<open>\<open>fetch_online_weather.parse_to_forecast_format\<close>, lines 137-142.\<close>

definition dewpoint_online :: "real \<Rightarrow> real \<Rightarrow> exn + real" where
  "dewpoint_online tc rh =
     (let a = 17.27; b = 237.7 in
      if b + tc = 0 then Inl ZeroDivisionError
      else let alpha = ((a * tc) / (b + tc)) + (rh / 100) in
        if a - alpha = 0 then Inl ZeroDivisionError
        else let dewpoint = (b * alpha) / (a - alpha) in Inr (py_round dewpoint 1))"

text \<open>
  \<open>update_simulated_weather.generate_realistic_weather\<close>, lines 48-50 and 59; \<open>temp\<close> and
  \<open>humidity\<close> are the clamped values of lines 41-42.
\<close>

definition dewpoint_simulated :: "real \<Rightarrow> real \<Rightarrow> exn + real" where
  "dewpoint_simulated temp humidity =
     (let a = 17.27; b = 237.7 in
      if b + temp = 0 then Inl ZeroDivisionError
      else let alpha = ((a * temp) / (b + temp)) + (humidity / 100) in
        if a - alpha = 0 then Inl ZeroDivisionError
        else let dewpoint = (b * alpha) / (a - alpha) in Inr (py_round dewpoint 1))"

text \<open>The derivation as the specification words it.\<close>

definition magnus_spec :: "real \<Rightarrow> real \<Rightarrow> real" where
  "magnus_spec T RH =
     (let alpha = (17.27 * T) / (237.7 + T) + RH / 100
      in py_round (237.7 * alpha / (17.27 - alpha)) 1)"

section \<open>Instants and dates\<close>

text \<open>
  A timezone-aware \<open>datetime\<close> in UTC is the number of microseconds since
  1970-01-01T00:00:00Z. The clock (\<open>datetime.now(timezone.utc)\<close>) is an argument of
  every function that reads it.
\<close>

type_synonym instant = int

definition usec_per_minute :: int where
  "usec_per_minute = 60000000"

definition usec_per_hour :: int where
  "usec_per_hour = 3600000000"

definition usec_per_day :: int where
  "usec_per_day = 86400000000"

text \<open>\<open>datetime.combine(dt.date(), datetime.min.time())\<close>: midnight of the instant's UTC day.\<close>

definition midnight :: "instant \<Rightarrow> instant" where
  "midnight t = t - t mod usec_per_day"

text \<open>\<open>dt.replace(hour=h, minute=m, second=0, microsecond=0)\<close>.\<close>

definition at_time :: "instant \<Rightarrow> int \<Rightarrow> int \<Rightarrow> instant" where
  "at_time t h m = midnight t + h * usec_per_hour + m * usec_per_minute"

text \<open>\<open>(t1 - t0).total_seconds() / 3600\<close>.\<close>

definition hours_between :: "instant \<Rightarrow> instant \<Rightarrow> real" where
  "hours_between t0 t1 = of_int (t1 - t0) / of_int usec_per_hour"

text \<open>
  The calendar date of an instant's UTC day, as \<open>strftime("%Y/%m/%d")\<close> lays it out:
  the proleptic Gregorian (year, month, day) of a day number counted from 1970-01-01.
\<close>

definition civil_from_days :: "int \<Rightarrow> int \<times> int \<times> int" where
  "civil_from_days z0 =
     (let z = z0 + 719468;
          era = z div 146097;
          doe = z - era * 146097;
          yoe = (doe - doe div 1460 + doe div 36524 - doe div 146096) div 365;
          doy = doe - (365 * yoe + yoe div 4 - yoe div 100);
          mp = (5 * doy + 2) div 153;
          d = doy - (153 * mp + 2) div 5 + 1;
          m = (if mp < 10 then mp + 3 else mp - 9);
          y = yoe + era * 400 + (if m \<le> 2 then 1 else 0)
      in (y, m, d))"

definition digit_char :: "int \<Rightarrow> char" where
  "digit_char d = ''0123456789'' ! nat (d mod 10)"

definition two_digits :: "int \<Rightarrow> string" where
  "two_digits n = [digit_char (n div 10), digit_char n]"

definition four_digits :: "int \<Rightarrow> string" where
  "four_digits n = [digit_char (n div 1000), digit_char (n div 100), digit_char (n div 10), digit_char n]"

text \<open>
  The three directory names of \<open>strftime("%Y/%m/%d")\<close> (years 1000 to 9999, where
  \<open>%Y\<close> has four digits).
\<close>

definition date_dirs :: "instant \<Rightarrow> string list" where
  "date_dirs t =
     (case civil_from_days (t div usec_per_day) of
        (y, m, d) \<Rightarrow> [four_digits y, two_digits m, two_digits d])"

section \<open>Moon phase and illumination\<close>

text \<open>The known new moon of the source: \<open>datetime(2000, 1, 6, 18, 14, tzinfo=timezone.utc)\<close>.\<close>

definition new_moon_epoch :: instant where
  "new_moon_epoch = 947182440 * 1000000"

definition lunar_month :: real where
  "lunar_month = 29.53059"

text \<open>\<open>a % b\<close> on floats with \<open>b > 0\<close>: the result has the sign of \<open>b\<close>.\<close>

definition py_fmod :: "real \<Rightarrow> real \<Rightarrow> real" where
  "py_fmod a b = a - b * of_int \<lfloor>a / b\<rfloor>"

text \<open>\<open>int(x)\<close> truncates toward zero.\<close>

definition py_int :: "real \<Rightarrow> int" where
  "py_int x = (if x < 0 then \<lceil>x\<rceil> else \<lfloor>x\<rfloor>)"

text \<open>\<open>(now - datetime(2000, 1, 6, 18, 14, ...)).days\<close>: whole days, rounded down.\<close>

definition days_since_new_moon :: "instant \<Rightarrow> int" where
  "days_since_new_moon now = (now - new_moon_epoch) div usec_per_day"

text \<open>\<open>moon_phase_float = (days_since_new_moon % lunar_month) / lunar_month\<close>.\<close>

definition moon_phase_float :: "int \<Rightarrow> real" where
  "moon_phase_float days = py_fmod (of_int days) lunar_month / lunar_month"

text \<open>
  Both astronomy functions compute the illumination with the same two lines:
  \<^verbatim>\<open>illumination = abs(0.5 - p) * 200 if p <= 0.5 else (1 - p) * 200
  illumination = max(0, min(100, illumination))\<close>
\<close>

definition illumination :: "real \<Rightarrow> real" where
  "illumination p =
     (let i = (if p \<le> 0.5 then \<bar>0.5 - p\<bar> * 200 else (1 - p) * 200)
      in max 0 (min 100 i))"

text \<open>The triangular function of the specification: 0 at 0, 100 at 1/2, 0 towards 1.\<close>

definition triangular_spec :: "real \<Rightarrow> real" where
  "triangular_spec p = max 0 (min 100 (if p \<le> 0.5 then p * 200 else (1 - p) * 200))"

text \<open>\<open>fetch_online_weather.calculate_astronomy_data\<close>, lines 74-89: the chain of thresholds.\<close>

definition phase_name_online :: "real \<Rightarrow> string" where
  "phase_name_online p =
     (if p < 0.0625 then ''New Moon''
      else if p < 0.1875 then ''Waxing Crescent''
      else if p < 0.3125 then ''First Quarter''
      else if p < 0.4375 then ''Waxing Gibbous''
      else if p < 0.5625 then ''Full Moon''
      else if p < 0.6875 then ''Waning Gibbous''
      else if p < 0.8125 then ''Last Quarter''
      else ''Waning Crescent'')"

text \<open>\<open>generate_forecast.calculate_basic_astronomy\<close>, lines 154-159: a table and an index.\<close>

definition phase_names :: "string list" where
  "phase_names = [''New Moon'', ''Waxing Crescent'', ''First Quarter'', ''Waxing Gibbous'',
                  ''Full Moon'', ''Waning Gibbous'', ''Last Quarter'', ''Waning Crescent'']"

definition phase_idx :: "real \<Rightarrow> int" where
  "phase_idx p = py_int (p * 8) mod 8"

definition phase_name_basic :: "real \<Rightarrow> string" where
  "phase_name_basic p = phase_names ! nat (phase_idx p)"

text \<open>
  The naming the specification words: 8 equal-width buckets over \<open>[0,1)\<close>, starting at
  New Moon.
\<close>

definition phase_name_spec :: "real \<Rightarrow> string" where
  "phase_name_spec p = phase_names ! nat \<lfloor>8 * p\<rfloor>"

record astronomy =
  moon_phase :: string
  moon_illumination_pct :: real
  sun_rise :: instant
  sun_set :: instant
  astronomical_twilight_end :: instant
  astronomical_twilight_start :: instant

record astronomy_online = astronomy +
  moon_age_days :: real

record astronomy_basic = astronomy +
  moon_rise :: instant
  moon_set :: instant
  darkness_duration_hours :: real

text \<open>\<open>fetch_online_weather.calculate_astronomy_data(dt)\<close>.\<close>

definition calculate_astronomy_data :: "instant \<Rightarrow> astronomy_online" where
  "calculate_astronomy_data dt =
     (let days = days_since_new_moon dt;
          p = moon_phase_float days;
          age = py_fmod (of_int days) lunar_month;
          sunrise = at_time dt 7 15;
          sunset = at_time dt 17 45;
          twilight_end = sunset + 50 * usec_per_minute;
          twilight_start = sunrise - 50 * usec_per_minute
      in \<lparr> moon_phase = phase_name_online p,
           moon_illumination_pct = py_round (illumination p) 1,
           sun_rise = sunrise,
           sun_set = sunset,
           astronomical_twilight_end = twilight_end,
           astronomical_twilight_start = twilight_start,
           moon_age_days = py_round age 1 \<rparr>)"

text \<open>\<open>generate_forecast.calculate_basic_astronomy()\<close>, with the clock as argument.\<close>

definition calculate_basic_astronomy :: "instant \<Rightarrow> astronomy_basic" where
  "calculate_basic_astronomy now =
     (let p = moon_phase_float (days_since_new_moon now);
          sunrise = at_time now 7 15;
          sunset = at_time now 17 45;
          twilight_end = sunset + 50 * usec_per_minute;
          twilight_start = sunrise - 50 * usec_per_minute;
          darkness_duration = hours_between twilight_end twilight_start
      in \<lparr> moon_phase = phase_name_basic p,
           moon_illumination_pct = py_round (illumination p) 1,
           sun_rise = sunrise,
           sun_set = sunset,
           astronomical_twilight_end = twilight_end,
           astronomical_twilight_start = twilight_start,
           moon_rise = sunrise + py_int (p * 720) * usec_per_minute,
           moon_set = sunset + py_int (p * 720) * usec_per_minute,
           darkness_duration_hours = py_round \<bar>darkness_duration\<bar> 1 \<rparr>)"

section \<open>Observation windows\<close>

text \<open>
  \<open>generate_forecast.calculate_observation_windows\<close>. The library parser
  \<open>datetime.fromisoformat\<close> is an argument: \<open>fromisoformat s\<close> is the instant the
  string denotes, a timestamp without offset being read as UTC (lines 83-85), and \<open>None\<close>
  where the parser raises \<open>ValueError\<close>.
\<close>

record period =
  p_name :: string
  p_start :: instant
  p_end :: instant

definition periods :: "instant \<Rightarrow> period list" where
  "periods now =
     [ \<lparr> p_name = ''Tonight'',
         p_start = at_time now 18 0,
         p_end = at_time now 23 0 \<rparr>,
       \<lparr> p_name = ''Late Night'',
         p_start = at_time now 23 30,
         p_end = at_time (now + usec_per_day) 5 0 \<rparr>,
       \<lparr> p_name = ''Tomorrow Evening'',
         p_start = at_time (now + usec_per_day) 18 0,
         p_end = at_time (now + usec_per_day) 23 30 \<rparr> ]"

text \<open>\<open>for x in v\<close>: the items a loop over \<open>v\<close> visits.\<close>

fun py_iter :: "json \<Rightarrow> exn + json list" where
  "py_iter (JList xs) = Inr xs"
| "py_iter (JStr s) = Inr (map (\<lambda>c. JStr [c]) s)"
| "py_iter (JObj d) = Inr (map (\<lambda>kv. JStr (fst kv)) d)"
| "py_iter v = Inl TypeError"

fun parse_timestamp :: "(string \<Rightarrow> instant option) \<Rightarrow> json \<Rightarrow> exn + instant" where
  "parse_timestamp fromisoformat (JStr s) =
     (case fromisoformat s of None \<Rightarrow> Inl ValueError | Some t \<Rightarrow> Inr t)"
| "parse_timestamp fromisoformat v = Inl TypeError"

text \<open>Lines 80-88: the forecast entries whose timestamp lies within the period.\<close>

fun select_period :: "(string \<Rightarrow> instant option) \<Rightarrow> period \<Rightarrow> json list \<Rightarrow> exn + json list" where
  "select_period fromisoformat p [] = Inr []"
| "select_period fromisoformat p (f # fs) =
     ebind (subscr f ''timestamp'') (\<lambda>t.
     ebind (parse_timestamp fromisoformat t) (\<lambda>ts.
     ebind (select_period fromisoformat p fs) (\<lambda>rest.
       Inr (if p_start p \<le> ts \<and> ts \<le> p_end p then f # rest else rest))))"

text \<open>\<open>sum(f["cloud_cover_pct"] for f in period_forecasts)\<close>, line 94.\<close>

fun sum_clouds :: "json list \<Rightarrow> exn + real" where
  "sum_clouds [] = Inr 0"
| "sum_clouds (f # fs) =
     ebind (subscr f ''cloud_cover_pct'') (\<lambda>c.
     ebind (num_of c) (\<lambda>x.
     ebind (sum_clouds fs) (\<lambda>s. Inr (x + s))))"

record observation_window =
  w_period :: string
  w_start :: instant
  w_end :: instant
  duration_hours :: real
  quality :: string
  rating :: real
  avg_cloud_cover_pct :: real
  moon_interference :: string
  recommended_targets :: "string list"

text \<open>
  Lines 93-140, the scoring of one period from its selected entries (a non-empty list). The
  \<open>notes\<close> text of the emitted window repeats the two averages and is left out; the
  astronomy record always carries \<open>moon_illumination_pct\<close>, so the default of
  \<open>astronomy_data.get("moon_illumination_pct", 50)\<close> is never taken.
\<close>

definition score_window :: "'a astronomy_scheme \<Rightarrow> period \<Rightarrow> json list \<Rightarrow> exn + observation_window" where
  "score_window astronomy_data p period_forecasts =
     ebind (sum_clouds period_forecasts) (\<lambda>cloud_sum.
       let avg_clouds = cloud_sum / real (length period_forecasts);
           (quality0, rating0, targets) =
             (if avg_clouds < 20 then
                (''excellent'', 9.5,
                 [''Faint galaxies'', ''Nebulae'', ''Star clusters'', ''Deep-sky imaging''])
              else if avg_clouds < 40 then
                (''good'', 7.5, [''Planets'', ''Bright deep-sky objects'', ''Moon features''])
              else if avg_clouds < 60 then
                (''moderate'', 5.0, [''Planets'', ''Moon'', ''Bright stars''])
              else
                (''poor'', 3.0, [''Not recommended for observation'']));
           moon_illumination = moon_illumination_pct astronomy_data;
           (interference, rating1) =
             (if moon_illumination > 80 then (''high'', rating0 - 1.5)
              else if moon_illumination > 40 then (''moderate'', rating0 - 0.5)
              else (''minimal'', rating0));
           rating2 = max 0 (min 10 rating1);
           duration = hours_between (p_start p) (p_end p)
       in Inr \<lparr> w_period = p_name p,
                w_start = p_start p,
                w_end = p_end p,
                duration_hours = py_round duration 2,
                quality = quality0,
                rating = py_round rating2 1,
                avg_cloud_cover_pct = py_round avg_clouds 1,
                moon_interference = interference,
                recommended_targets = targets \<rparr>)"

text \<open>Lines 78-140: the loop over the periods; a period without entries is skipped.\<close>

fun score_periods ::
  "(string \<Rightarrow> instant option) \<Rightarrow> 'a astronomy_scheme \<Rightarrow> json \<Rightarrow> period list
     \<Rightarrow> exn + observation_window list" where
  "score_periods fromisoformat astronomy_data forecast [] = Inr []"
| "score_periods fromisoformat astronomy_data forecast (p # ps) =
     ebind (py_iter forecast) (\<lambda>items.
     ebind (select_period fromisoformat p items) (\<lambda>period_forecasts.
       if period_forecasts = [] then score_periods fromisoformat astronomy_data forecast ps
       else
         ebind (score_window astronomy_data p period_forecasts) (\<lambda>w.
         ebind (score_periods fromisoformat astronomy_data forecast ps) (\<lambda>ws.
           Inr (w # ws)))))"

definition calculate_observation_windows ::
  "(string \<Rightarrow> instant option) \<Rightarrow> instant \<Rightarrow> dict \<Rightarrow> dict \<Rightarrow> 'a astronomy_scheme
     \<Rightarrow> exn + observation_window list" where
  "calculate_observation_windows fromisoformat now online_data local_data astronomy_data =
     (if truthy (dict_get online_data ''ok'' JNull) \<and> map_of online_data ''forecast_48h'' \<noteq> None
      then score_periods fromisoformat astronomy_data
             (dict_get online_data ''forecast_48h'' JNull) (periods now)
      else Inr [])"





section \<open>Observation windows: the specification's view\<close>








text \<open>
  An example run on 2026-11-04 at 12:00 UTC: eight half-hourly points from 18:00 to 21:30,
  cloud covers averaging 15, under a moon lit to 90 per cent.
\<close>

definition ex_fromisoformat :: "string \<Rightarrow> instant option" where
  "ex_fromisoformat = map_of
     [(''2026-11-04 18:00:00'', 1793815200000000), (''2026-11-04 18:30:00'', 1793817000000000),
      (''2026-11-04 19:00:00'', 1793818800000000), (''2026-11-04 19:30:00'', 1793820600000000),
      (''2026-11-04 20:00:00'', 1793822400000000), (''2026-11-04 20:30:00'', 1793824200000000),
      (''2026-11-04 21:00:00'', 1793826000000000), (''2026-11-04 21:30:00'', 1793827800000000)]"

definition ex_point :: "string \<Rightarrow> real \<Rightarrow> json" where
  "ex_point ts clouds =
     JObj [(''timestamp'', JStr ts), (''temperature_c'', JNum 4.5), (''cloud_cover_pct'', JNum clouds),
           (''humidity_pct'', JNum 70), (''wind_speed_kmh'', JNum 7.2), (''conditions'', JStr ''clear sky'')]"

definition ex_forecast :: "json list" where
  "ex_forecast =
     [ex_point ''2026-11-04 18:00:00'' 10, ex_point ''2026-11-04 18:30:00'' 20,
      ex_point ''2026-11-04 19:00:00'' 15, ex_point ''2026-11-04 19:30:00'' 15,
      ex_point ''2026-11-04 20:00:00'' 12, ex_point ''2026-11-04 20:30:00'' 18,
      ex_point ''2026-11-04 21:00:00'' 14, ex_point ''2026-11-04 21:30:00'' 16]"

definition ex_online_ok :: dict where
  "ex_online_ok =
     [(''ok'', JBool True), (''source'', JStr ''OpenWeatherMap API''),
      (''current'', JObj [(''temperature_c'', JNum 20), (''humidity_pct'', JNum 70),
                          (''cloud_cover_pct'', JNum 30), (''visibility_km'', JNum 10),
                          (''conditions'', JStr ''scattered clouds'')]),
      (''forecast_48h'', JList ex_forecast)]"

definition ex_now :: instant where
  "ex_now = 1793793600000000"



section \<open>Fusion of the two channels\<close>

text \<open>\<open>generate_forecast.merge_weather_sources\<close>, lines 188-221.\<close>

definition merged_init :: dict where
  "merged_init =
     [(''temperature_c'', JNull), (''humidity_pct'', JNull), (''pressure_hpa'', JNull),
      (''dewpoint_c'', JNull), (''wind_speed_kmh'', JNull), (''wind_direction_deg'', JNull),
      (''cloud_cover_pct'', JNull), (''visibility_km'', JNull),
      (''conditions'', JStr ''Unknown'')]"

definition local_keys :: "string list" where
  "local_keys = [''temperature_c'', ''humidity_pct'', ''pressure_hpa'', ''dewpoint_c'',
                 ''wind_speed_kmh'', ''wind_direction_deg'']"

definition online_keys :: "string list" where
  "online_keys = [''cloud_cover_pct'', ''visibility_km'', ''conditions'']"

text \<open>A \<open>for key in keys\<close> loop whose body updates \<open>merged\<close> and may raise.\<close>

fun for_keys :: "(string \<Rightarrow> dict \<Rightarrow> exn + dict) \<Rightarrow> string list \<Rightarrow> dict \<Rightarrow> exn + dict" where
  "for_keys body [] merged = Inr merged"
| "for_keys body (key # keys) merged = ebind (body key merged) (for_keys body keys)"

text \<open>
  Lines 206-207, the body of the first loop:
  \<^verbatim>\<open>if key in local_current and local_current[key] is not None:
      merged[key] = local_current[key]\<close>
\<close>

definition local_step :: "json \<Rightarrow> string \<Rightarrow> dict \<Rightarrow> exn + dict" where
  "local_step local_current key merged =
     ebind (py_in key local_current) (\<lambda>present.
       if present then
         ebind (subscr local_current key) (\<lambda>v.
           Inr (if v \<noteq> JNull then dict_set key v merged else merged))
       else Inr merged)"

text \<open>
  Lines 213-214, the body of the second loop; \<open>merged[key]\<close> is read only when the key
  is in \<open>online_current\<close>, and every key of the loop is a key of \<open>merged\<close>:
  \<^verbatim>\<open>if key in online_current and (merged[key] is None or key in [...]):
      merged[key] = online_current[key]\<close>
\<close>

definition online_step :: "json \<Rightarrow> string \<Rightarrow> dict \<Rightarrow> exn + dict" where
  "online_step online_current key merged =
     ebind (py_in key online_current) (\<lambda>present.
       if present \<and> (map_of merged key = Some JNull \<or> key \<in> set online_keys) then
         ebind (subscr online_current key) (\<lambda>v. Inr (dict_set key v merged))
       else Inr merged)"

text \<open>
  Lines 218-219, the body of the third loop, over the keys of \<open>merged\<close>:
  \<^verbatim>\<open>if merged[key] is None and key in online_current:
      merged[key] = online_current[key]\<close>
\<close>

definition fill_step :: "json \<Rightarrow> string \<Rightarrow> dict \<Rightarrow> exn + dict" where
  "fill_step online_current key merged =
     (if map_of merged key = Some JNull then
        ebind (py_in key online_current) (\<lambda>present.
          if present then
            ebind (subscr online_current key) (\<lambda>v. Inr (dict_set key v merged))
          else Inr merged)
      else Inr merged)"

definition merge_weather_sources :: "dict \<Rightarrow> dict \<Rightarrow> exn + dict" where
  "merge_weather_sources online_data local_data =
     ebind (if truthy (dict_get local_data ''ok'' JNull) \<and> map_of local_data ''current'' \<noteq> None
            then for_keys (local_step (dict_get local_data ''current'' JNull)) local_keys merged_init
            else Inr merged_init) (\<lambda>merged1.
       if truthy (dict_get online_data ''ok'' JNull) \<and> map_of online_data ''current'' \<noteq> None
       then
         ebind (for_keys (online_step (dict_get online_data ''current'' JNull)) online_keys merged1)
           (\<lambda>merged2.
             for_keys (fill_step (dict_get online_data ''current'' JNull)) (map fst merged2) merged2)
       else Inr merged1)"

text \<open>The example's local reading: the station reports 10 degrees, the online channel 20.\<close>

definition ex_local_ok :: dict where
  "ex_local_ok =
     [(''ok'', JBool True), (''source'', JStr ''Local Weather Station (file)''),
      (''current'', JObj [(''temperature_c'', JNum 10), (''humidity_pct'', JNum 55),
                          (''dewpoint_c'', JNum 1.3)])]"

section \<open>Composition of the forecast document\<close>

text \<open>
  \<open>generate_forecast.generate_combined_forecast\<close>. The results of the two
  \<open>run_fetcher\<close> calls are arguments (a fetcher that fails yields a dict with a false
  \<open>ok\<close> and an \<open>error\<close>), and so is the clock. The constant texts of the document
  (coordinates, educational notes, tips) are left out.
\<close>

text \<open>\<open>v < x\<close> and \<open>v > x\<close> against a number.\<close>

definition py_lt :: "json \<Rightarrow> real \<Rightarrow> exn + bool" where
  "py_lt v x = ebind (num_of v) (\<lambda>a. Inr (a < x))"

definition py_gt :: "json \<Rightarrow> real \<Rightarrow> exn + bool" where
  "py_gt v x = ebind (num_of v) (\<lambda>a. Inr (a > x))"

text \<open>
  Lines 244-259, the chain over \<open>cloud_cover\<close> and \<open>visibility\<close>; \<open>and\<close> evaluates
  its right operand only when the left one is true. The result is
  (transparency, seeing, overall rating).
\<close>

definition sky_quality_estimate :: "json \<Rightarrow> json \<Rightarrow> exn + string \<times> string \<times> real" where
  "sky_quality_estimate cloud_cover visibility =
     ebind (py_lt cloud_cover 20) (\<lambda>c1.
     ebind (if c1 then py_gt visibility 15 else Inr False) (\<lambda>b1.
       if b1 then Inr (''excellent'', ''good'', 9.0)
       else
         ebind (py_lt cloud_cover 40) (\<lambda>c2.
         ebind (if c2 then py_gt visibility 10 else Inr False) (\<lambda>b2.
           if b2 then Inr (''good'', ''moderate'', 7.0)
           else
             ebind (py_lt cloud_cover 60) (\<lambda>c3.
               if c3 then Inr (''moderate'', ''moderate'', 5.0)
               else Inr (''poor'', ''poor'', 3.0))))))"

record channel_status =
  available :: json
  source :: json
  error :: json

text \<open>Lines 272-281, one entry of \<open>data_sources\<close>.\<close>

definition channel_status_of :: "dict \<Rightarrow> channel_status" where
  "channel_status_of channel_data =
     \<lparr> available = dict_get channel_data ''ok'' (JBool False),
       source = dict_get channel_data ''source'' (JStr ''Not available''),
       error = (if \<not> truthy (dict_get channel_data ''ok'' JNull)
                then dict_get channel_data ''error'' JNull else JNull) \<rparr>"

record sky_quality =
  transparency :: string
  seeing :: string
  overall_rating :: real
  sqm_mag_per_arcsec2 :: real

record forecast_document =
  doc_source :: string
  doc_timestamp :: instant
  data_sources_online :: channel_status
  data_sources_local :: channel_status
  current :: dict
  astronomy_section :: astronomy_basic
  sky_quality_section :: sky_quality
  observation_windows :: "observation_window list"
  forecast_48h :: json

definition generate_combined_forecast ::
  "(string \<Rightarrow> instant option) \<Rightarrow> instant \<Rightarrow> dict \<Rightarrow> dict \<Rightarrow> exn + forecast_document" where
  "generate_combined_forecast fromisoformat now online_data local_data =
     (let astronomy_data = calculate_basic_astronomy now in
      ebind (merge_weather_sources online_data local_data) (\<lambda>current_weather.
      ebind (calculate_observation_windows fromisoformat now online_data local_data astronomy_data)
        (\<lambda>windows.
      let cloud_cover = dict_get current_weather ''cloud_cover_pct'' (JNum 50);
          visibility = dict_get current_weather ''visibility_km'' (JNum 10)
      in ebind (sky_quality_estimate cloud_cover visibility) (\<lambda>(transparency0, seeing0, rating0).
        Inr \<lparr> doc_source = ''Combined: Online API + Local Sensors'',
               doc_timestamp = now,
               data_sources_online = channel_status_of online_data,
               data_sources_local = channel_status_of local_data,
               current = current_weather,
               astronomy_section = astronomy_data,
               sky_quality_section =
                 \<lparr> transparency = transparency0, seeing = seeing0, overall_rating = rating0,
                   sqm_mag_per_arcsec2 = (if transparency0 = ''excellent'' then 19.5 else 18.5) \<rparr>,
               observation_windows = windows,
               forecast_48h = (if truthy (dict_get online_data ''ok'' JNull)
                               then dict_get online_data ''forecast_48h'' (JList [])
                               else JList []) \<rparr>))))"

text \<open>
  The online fetcher failed (what \<open>run_fetcher\<close> returns after a non-zero exit), the local
  one succeeded.
\<close>

definition ex_online_failed :: dict where
  "ex_online_failed =
     [(''ok'', JBool False), (''error'', JStr ''Network error: timed out''),
      (''script'', JStr ''fetch_online_weather.py'')]"

section \<open>The online reading\<close>

text \<open>\<open>fetch_online_weather.parse_to_forecast_format\<close>.\<close>















section \<open>The weather-station receiver\<close>

text \<open>
  \<open>weather_station_receiver.py\<close>. The current-weather file holds a JSON object (it is
  written by \<open>write_weather\<close> and by the simulator only, both dumping a dict), so the
  store is \<open>None\<close> while the file does not exist and \<open>Some d\<close> afterwards.
\<close>

type_synonym weather_store = "dict option"

text \<open>
  \<open>datetime.isoformat()\<close> of a UTC instant: the microseconds are printed only when they
  are not zero.
\<close>

definition six_digits :: "int \<Rightarrow> string" where
  "six_digits n = [digit_char (n div 100000), digit_char (n div 10000), digit_char (n div 1000),
                   digit_char (n div 100), digit_char (n div 10), digit_char n]"

definition isoformat :: "instant \<Rightarrow> string" where
  "isoformat t =
     (case civil_from_days (t div usec_per_day) of
        (y, m, d) \<Rightarrow>
          let r = t mod usec_per_day;
              hh = r div usec_per_hour;
              mi = (r mod usec_per_hour) div usec_per_minute;
              ss = (r mod usec_per_minute) div 1000000;
              us = r mod 1000000
          in four_digits y @ ''-'' @ two_digits m @ ''-'' @ two_digits d @ ''T''
             @ two_digits hh @ '':'' @ two_digits mi @ '':'' @ two_digits ss
             @ (if us = 0 then [] else ''.'' @ six_digits us) @ ''+00:00'')"

definition read_current_weather :: "weather_store \<Rightarrow> dict" where
  "read_current_weather store = (case store of Some d \<Rightarrow> d | None \<Rightarrow> [])"

text \<open>\<open>write_weather(data)\<close>: the timestamp is added only when the dict has none.\<close>

definition write_weather :: "instant \<Rightarrow> dict \<Rightarrow> weather_store" where
  "write_weather now data =
     Some (if map_of data ''timestamp'' = None
           then dict_set ''timestamp'' (JStr (isoformat now)) data
           else data)"

text \<open>\<open>current.update(normalized)\<close>.\<close>

fun dict_update :: "dict \<Rightarrow> dict \<Rightarrow> dict" where
  "dict_update stored [] = stored"
| "dict_update stored ((k, v) # rest) = dict_update (dict_set k v stored) rest"

text \<open>The alias table of \<open>parse_json_weather\<close>, lines 120-144.\<close>

definition field_map :: "(string \<times> string) list" where
  "field_map =
     [(''temp'', ''temperature_c''), (''temperature'', ''temperature_c''),
      (''temp_c'', ''temperature_c''), (''t'', ''temperature_c''),
      (''humidity'', ''humidity_pct''), (''rh'', ''humidity_pct''),
      (''relative_humidity'', ''humidity_pct''),
      (''pressure'', ''pressure_hpa''), (''press'', ''pressure_hpa''), (''p'', ''pressure_hpa''),
      (''wind_speed'', ''wind_speed_kmh''), (''wind_speed_kmh'', ''wind_speed_kmh''),
      (''wind'', ''wind_speed_kmh''),
      (''wind_dir'', ''wind_direction_deg''), (''wind_direction'', ''wind_direction_deg''),
      (''dewpoint'', ''dewpoint_c''), (''dew_point'', ''dewpoint_c''), (''dp'', ''dewpoint_c'')]"

text \<open>
  \<open>key.lower()\<close> is the library's lowercasing and an argument (\<open>str_lower\<close>) of the
  functions below. On a key of ASCII characters it is \<open>ascii_lower\<close>, which the examples
  use.
\<close>

definition lower_char :: "char \<Rightarrow> char" where
  "lower_char c =
     (case map_of (zip ''ABCDEFGHIJKLMNOPQRSTUVWXYZ'' ''abcdefghijklmnopqrstuvwxyz'') c of
        Some l \<Rightarrow> l
      | None \<Rightarrow> c)"

definition ascii_lower :: "string \<Rightarrow> string" where
  "ascii_lower s = map lower_char s"

text \<open>\<open>target_key = field_map.get(key.lower(), key)\<close>.\<close>

definition target_key :: "(string \<Rightarrow> string) \<Rightarrow> string \<Rightarrow> string" where
  "target_key str_lower key =
     (case map_of field_map (str_lower key) of Some t \<Rightarrow> t | None \<Rightarrow> key)"

text \<open>
  \<open>float(value)\<close>. A Python float is below \<open>2^1024\<close> in magnitude, so a number of the
  model at or beyond \<open>2^1024 - 2^970\<close> (the least magnitude that rounds to \<open>2^1024\<close>) is
  an \<open>int\<close>, and \<open>float\<close> of it raises \<open>OverflowError\<close>. \<open>None\<close>, a list and a dict
  raise \<open>TypeError\<close>. The conversion of a string by the library is an argument,
  \<open>float_of_string s = None\<close> where \<open>float(s)\<close> raises \<open>ValueError\<close>.
\<close>

definition float_overflow_bound :: real where
  "float_overflow_bound = 2 ^ 1024 - 2 ^ 970"

fun py_float :: "(string \<Rightarrow> real option) \<Rightarrow> json \<Rightarrow> exn + real" where
  "py_float float_of_string (JNum x) =
     (if float_overflow_bound \<le> \<bar>x\<bar> then Inl OverflowError else Inr x)"
| "py_float float_of_string (JBool b) = Inr (if b then 1 else 0)"
| "py_float float_of_string (JStr s) =
     (case float_of_string s of None \<Rightarrow> Inl ValueError | Some x \<Rightarrow> Inr x)"
| "py_float float_of_string v = Inl TypeError"

text \<open>
  Lines 147-152, the body of the loop over \<open>data.items()\<close>; the inner handler is
  \<open>except (ValueError, TypeError): pass\<close>, any other exception leaves the loop:
  \<^verbatim>\<open>target_key = field_map.get(key.lower(), key)
  if target_key in field_map.values():
      try:
          normalized[target_key] = float(value)
      except (ValueError, TypeError):
          pass\<close>
\<close>

definition normalize_step ::
  "(string \<Rightarrow> string) \<Rightarrow> (string \<Rightarrow> real option) \<Rightarrow> string \<times> json \<Rightarrow> dict \<Rightarrow> exn + dict" where
  "normalize_step str_lower float_of_string item normalized =
     (if target_key str_lower (fst item) \<in> set (map snd field_map) then
        (case py_float float_of_string (snd item) of
           Inr x \<Rightarrow> Inr (dict_set (target_key str_lower (fst item)) (JNum x) normalized)
         | Inl e \<Rightarrow> if e = ValueError \<or> e = TypeError then Inr normalized else Inl e)
      else Inr normalized)"

text \<open>Lines 146-152, the loop.\<close>

fun normalize_items ::
  "(string \<Rightarrow> string) \<Rightarrow> (string \<Rightarrow> real option) \<Rightarrow> dict \<Rightarrow> dict \<Rightarrow> exn + dict" where
  "normalize_items str_lower float_of_string [] normalized = Inr normalized"
| "normalize_items str_lower float_of_string (item # rest) normalized =
     ebind (normalize_step str_lower float_of_string item normalized)
       (normalize_items str_lower float_of_string rest)"

text \<open>
  \<open>parse_json_weather(data)\<close>. The body runs under \<open>try ... except Exception\<close>, which
  prints and lets the function return \<open>None\<close>: so does a value without \<open>.items()\<close>
  (\<open>AttributeError\<close>) and an exception that leaves the loop, whatever the loop had
  normalized before. An empty \<open>normalized\<close> gives \<open>None\<close> too.
\<close>

definition parse_json_weather ::
  "(string \<Rightarrow> string) \<Rightarrow> (string \<Rightarrow> real option) \<Rightarrow> json \<Rightarrow> dict option" where
  "parse_json_weather str_lower float_of_string data =
     (case data of
        JObj d \<Rightarrow>
          (case normalize_items str_lower float_of_string d [] of
             Inl e \<Rightarrow> None
           | Inr normalized \<Rightarrow> if normalized \<noteq> [] then Some normalized else None)
      | _ \<Rightarrow> None)"

text \<open>
  \<open>update_from_json(json_data)\<close>: the returned flag and the store afterwards, or the
  exception that leaves the function. \<open>json_loads s\<close> is the result of
  \<open>json.loads(s)\<close>; the handler is \<open>except json.JSONDecodeError\<close>, so another exception
  of the decoder is not caught.
\<close>

definition update_from_json ::
  "(string \<Rightarrow> exn + json) \<Rightarrow> (string \<Rightarrow> string) \<Rightarrow> (string \<Rightarrow> real option) \<Rightarrow> instant
     \<Rightarrow> string \<Rightarrow> weather_store \<Rightarrow> exn + bool \<times> weather_store" where
  "update_from_json json_loads str_lower float_of_string now json_data store =
     (case json_loads json_data of
        Inl e \<Rightarrow> if e = JSONDecodeError then Inr (False, store) else Inl e
      | Inr data \<Rightarrow>
          (case parse_json_weather str_lower float_of_string data of
             Some normalized \<Rightarrow>
               (let stored = read_current_weather store;
                    updated = dict_update stored normalized
                in Inr (True, write_weather now updated))
           | None \<Rightarrow> Inr (False, store)))"

text \<open>
  The claim's words: an item of the posted object is extracted when its key is recognized
  (the alias table maps it, or it already is a canonical name) and its value converts to a
  number. An item overflows when its key is recognized and the conversion of its value
  raises \<open>OverflowError\<close>.
\<close>

definition recognized :: "(string \<Rightarrow> string) \<Rightarrow> string \<Rightarrow> bool" where
  "recognized str_lower key = (target_key str_lower key \<in> set (map snd field_map))"

definition extracted ::
  "(string \<Rightarrow> string) \<Rightarrow> (string \<Rightarrow> real option) \<Rightarrow> string \<times> json \<Rightarrow> bool" where
  "extracted str_lower float_of_string item =
     (recognized str_lower (fst item)
      \<and> (case py_float float_of_string (snd item) of Inr x \<Rightarrow> True | Inl e \<Rightarrow> False))"

definition overflows ::
  "(string \<Rightarrow> string) \<Rightarrow> (string \<Rightarrow> real option) \<Rightarrow> string \<times> json \<Rightarrow> bool" where
  "overflows str_lower float_of_string item =
     (recognized str_lower (fst item)
      \<and> py_float float_of_string (snd item) = Inl OverflowError)"

text \<open>Example posts and an example store.\<close>

definition ex_json_loads :: "string \<Rightarrow> exn + json" where
  "ex_json_loads s =
     (if s = ''{\"Temp\": \"12.5\", \"rh\": 64, \"note\": \"calm\"}''
      then Inr (JObj [(''Temp'', JStr ''12.5''), (''rh'', JNum 64), (''note'', JStr ''calm'')])
      else if s = ''{\"note\": \"calm\", \"temp\": null}''
      then Inr (JObj [(''note'', JStr ''calm''), (''temp'', JNull)])
      else Inl JSONDecodeError)"

definition ex_float_of_string :: "string \<Rightarrow> real option" where
  "ex_float_of_string s = (if s = ''12.5'' then Some 12.5 else None)"

definition ex_store :: weather_store where
  "ex_store = Some [(''timestamp'', JStr ''2026-11-04T11:55:00+00:00''),
                    (''temperature_c'', JNum 11), (''pressure_hpa'', JNum 1013),
                    (''station_name'', JStr ''DORO Lab Simulated Sensors'')]"

text \<open>
  A post whose humidity is the integer \<open>10^400\<close>, written out with its four hundred
  zeros, and what \<open>json.loads\<close> makes of it.
\<close>

definition ex_overflow_post :: string where
  "ex_overflow_post = ''{\"temp\": 5, \"rh\": 1'' @ replicate 400 (CHR ''0'') @ ''}''"

definition ex_overflow_loads :: "string \<Rightarrow> exn + json" where
  "ex_overflow_loads s =
     (if s = ex_overflow_post
      then Inr (JObj [(''temp'', JNum 5), (''rh'', JNum (10 ^ 400))])
      else Inl JSONDecodeError)"

section \<open>Image ingestion\<close>

text \<open>
  The image files below the data directory (\<open>/srv/doro_lab_projects/skycam\<close>), keyed by
  their path components in directory-listing order, and the status record of
  \<open>skywatch_status.json\<close>. A file is its bytes and its modification time;
  \<open>shutil.copy2\<close> copies both. Directories exist where a file lies in them, so
  \<open>mkdir(parents=True, exist_ok=True)\<close> changes nothing. Socket and file-system calls on
  existing files succeed.
\<close>

type_synonym path = "string list"

datatype fs_file = File (content: string) (mtime: int)

record status =
  last_event :: string
  timestamp :: string
  last_filename :: string
  last_size_bytes :: nat
  connection :: string
  receiver_address :: "string option"

record skycam =
  files :: "(path \<times> fs_file) list"
  status_file :: "status option"


definition LATEST_PATH :: path where
  "LATEST_PATH = [''sky_latest_web.jpg'']"

definition IMAGES_DIR :: path where
  "IMAGES_DIR = [''images'']"

definition ARCHIVE_DIR :: path where
  "ARCHIVE_DIR = [''archive'']"

text \<open>\<open>p.name\<close>: the last component, empty for the root.\<close>

definition path_name :: "path \<Rightarrow> string" where
  "path_name p = (if p = [] then [] else last p)"

text \<open>\<open>ARCHIVE_DIR / now.strftime("%Y/%m/%d") / name\<close>.\<close>

definition archive_path :: "instant \<Rightarrow> string \<Rightarrow> path" where
  "archive_path now name = ARCHIVE_DIR @ date_dirs now @ [name]"

definition gallery_path :: "string \<Rightarrow> path" where
  "gallery_path name = IMAGES_DIR @ [name]"

text \<open>
  \<open>shutil.copy2(src, dst)\<close>: refuses to copy a file onto itself, needs the source, and
  otherwise creates or overwrites the destination.
\<close>

definition copy2 :: "path \<Rightarrow> path \<Rightarrow> (path \<times> fs_file) list \<Rightarrow> exn + (path \<times> fs_file) list" where
  "copy2 src dst fs =
     (case map_of fs src of
        None \<Rightarrow> Inl FileNotFoundError
      | Some f \<Rightarrow> if src = dst then Inl SameFileError else Inr (dict_set dst f fs))"


subsection \<open>The inbox drain\<close>







subsection \<open>The FTP receiver\<close>

text \<open>
  \<open>SkyWatchFTPHandler._update_status\<close>; \<open>peer\<close> is the \<open>host:port\<close> text of the
  control connection's peer.
\<close>

definition update_status :: "instant \<Rightarrow> string \<Rightarrow> string \<Rightarrow> nat \<Rightarrow> string \<Rightarrow> skycam \<Rightarrow> skycam" where
  "update_status now peer event_type size_bytes filename sc =
     sc \<lparr> status_file :=
            Some \<lparr> last_event = event_type,
                   timestamp = isoformat now,
                   last_filename = filename,
                   last_size_bytes = size_bytes,
                   connection = ''active'',
                   receiver_address = Some peer \<rparr> \<rparr>"

text \<open>
  \<open>SkyWatchFTPHandler._process_image_complete(source_path)\<close>: the state afterwards. The
  body runs under \<open>try ... except Exception\<close>, which logs and returns, so an exception
  leaves the state as the statements before it made it.
\<close>

definition process_image_complete :: "instant \<Rightarrow> string \<Rightarrow> path \<Rightarrow> skycam \<Rightarrow> skycam" where
  "process_image_complete now peer source_path sc =
     (case map_of (files sc) source_path of
        None \<Rightarrow> sc
      | Some f \<Rightarrow>
          if length (content f) = 0 then sc
          else
            let filename = path_name source_path;
                file_size = length (content f)
            in (case copy2 source_path (archive_path now filename) (files sc) of
                  Inl e \<Rightarrow> sc
                | Inr fs1 \<Rightarrow>
                    (case copy2 source_path (gallery_path filename) fs1 of
                       Inl e \<Rightarrow> sc \<lparr> files := fs1 \<rparr>
                     | Inr fs2 \<Rightarrow>
                         update_status now peer ''image_received'' file_size filename
                           (sc \<lparr> files := fs2 \<rparr>))))"

text \<open>Example states: one image in the drop directory, one upload in the FTP root.\<close>

definition ex_image :: fs_file where
  "ex_image = File ''JFIF-bytes'' 1793793000"


definition ex_upload_state :: skycam where
  "ex_upload_state = \<lparr> files = [([''cam1.jpg''], ex_image)], status_file = None \<rparr>"

definition ex_gallery_upload_state :: skycam where
  "ex_gallery_upload_state =
     \<lparr> files = [([''images'', ''cam1.jpg''], ex_image)], status_file = None \<rparr>"

section \<open>Theorems\<close>

lemma ebind_simps [simp]:
  "ebind (Inl e) f = Inl e"
  "ebind (Inr x) f = f x"
  by (simp_all add: ebind_def)

text \<open>
  C4. The three call sites of the Magnus dewpoint derivation (local file reader, online-API
  reader, simulated generator) return the same result on the same (temperature, humidity)
  input, including the inputs on which they raise; where they return, the value is the
  specified \<open>237.7*alpha/(17.27-alpha)\<close> with \<open>alpha = 17.27*T/(237.7+T) + RH/100\<close>,
  rounded to one decimal.
\<close>

theorem dewpoint_call_sites_agree:
  "dewpoint_local t rh = dewpoint_online t rh
   \<and> dewpoint_online t rh = dewpoint_simulated t rh
   \<and> (dewpoint_local t rh = Inr (magnus_spec t rh)
      \<or> dewpoint_local t rh = Inl ZeroDivisionError)"
  by (simp add: dewpoint_local_def dewpoint_online_def dewpoint_simulated_def
      magnus_spec_def Let_def)


subsection \<open>Moon phase names\<close>

lemma py_fmod_range:
  assumes "0 < b"
  shows "0 \<le> py_fmod a b \<and> py_fmod a b < b"
proof -
  define q where "q = \<lfloor>a / b\<rfloor>"
  have lo: "of_int q \<le> a / b" and hi: "a / b < of_int q + 1"
    unfolding q_def by linarith+
  have 1: "of_int q * b \<le> a"
    using lo assms by (simp add: pos_le_divide_eq)
  have 2: "a < (of_int q + 1) * b"
    using hi assms by (simp add: pos_divide_less_eq)
  show ?thesis
    using 1 2 by (simp add: py_fmod_def q_def [symmetric] algebra_simps)
qed

lemma moon_phase_float_range: "0 \<le> moon_phase_float d \<and> moon_phase_float d < 1"
  using py_fmod_range [of lunar_month "of_int d"]
  by (simp add: moon_phase_float_def lunar_month_def)

lemma phase_bucket_cases:
  assumes "0 \<le> p" "p < 1"
  obtains k :: nat where "k < 8" "\<lfloor>8 * p\<rfloor> = int k" "real k \<le> 8 * p" "8 * p < real k + 1"
proof -
  define j where "j = \<lfloor>8 * p\<rfloor>"
  have j0: "0 \<le> j" using assms by (simp add: j_def)
  have j7: "j < 8" using assms by (simp add: j_def floor_less_iff)
  have lo: "of_int j \<le> 8 * p" by (simp add: j_def)
  have hi: "8 * p < of_int j + 1" unfolding j_def by linarith
  show ?thesis
  proof (rule that [of "nat j"])
    show "nat j < 8" using j0 j7 by simp
    show "\<lfloor>8 * p\<rfloor> = int (nat j)" using j0 by (simp add: j_def)
    show "real (nat j) \<le> 8 * p" using j0 lo by simp
    show "8 * p < real (nat j) + 1" using j0 hi by simp
  qed
qed

lemma nat_lt8_cases:
  assumes "(k::nat) < 8"
  obtains "k = 0" | "k = 1" | "k = 2" | "k = 3" | "k = 4" | "k = 5" | "k = 6" | "k = 7"
  using assms by linarith

lemma phase_idx_floor:
  assumes "0 \<le> p"
  shows "phase_idx p = \<lfloor>8 * p\<rfloor> mod 8"
  using assms by (simp add: phase_idx_def py_int_def mult.commute)

text \<open>
  What the two functions compute on a phase fraction \<open>p\<close> in \<open>[0,1)\<close>:
  \<open>calculate_basic_astronomy\<close> takes entry \<open>floor(8p)\<close> of the table of names,
  \<open>calculate_astronomy_data\<close> takes entry \<open>min(7, floor(8p + 1/2))\<close>; they give the same
  name exactly when \<open>p\<close> lies in the first half of its eighth, or \<open>p \<ge> 7/8\<close>.
\<close>

lemma phase_name_indices:
  assumes "0 \<le> p" "p < 1"
  shows "phase_name_basic p = phase_names ! nat \<lfloor>8 * p\<rfloor>
       \<and> phase_name_online p = phase_names ! min 7 (nat \<lfloor>8 * p + 1/2\<rfloor>)
       \<and> (phase_name_online p = phase_name_basic p
            \<longleftrightarrow> 8 * p - of_int \<lfloor>8 * p\<rfloor> < 1/2 \<or> 7/8 \<le> p)"
proof -
  obtain k :: nat where k: "k < 8" "\<lfloor>8 * p\<rfloor> = int k" "real k \<le> 8 * p" "8 * p < real k + 1"
    using assms by (rule phase_bucket_cases)
  have idx: "phase_idx p = int k"
    using k(1,2) assms by (simp add: phase_idx_floor)
  have basic: "phase_name_basic p = phase_names ! k"
    by (simp add: phase_name_basic_def idx)
  have fl: "\<lfloor>8 * p + 1/2\<rfloor> = (if 8 * p - real k < 1/2 then int k else int k + 1)"
    using k(3,4) by (auto simp: floor_eq_iff)
  from k(1) show ?thesis
  proof (cases rule: nat_lt8_cases)
    case 1 then show ?thesis using k(3,4) basic fl k(2)
      by (auto simp: phase_name_online_def phase_names_def)
  next
    case 2 then show ?thesis using k(3,4) basic fl k(2)
      by (auto simp: phase_name_online_def phase_names_def)
  next
    case 3 then show ?thesis using k(3,4) basic fl k(2)
      by (auto simp: phase_name_online_def phase_names_def)
  next
    case 4 then show ?thesis using k(3,4) basic fl k(2)
      by (auto simp: phase_name_online_def phase_names_def)
  next
    case 5 then show ?thesis using k(3,4) basic fl k(2)
      by (auto simp: phase_name_online_def phase_names_def)
  next
    case 6 then show ?thesis using k(3,4) basic fl k(2)
      by (auto simp: phase_name_online_def phase_names_def)
  next
    case 7 then show ?thesis using k(3,4) basic fl k(2)
      by (auto simp: phase_name_online_def phase_names_def)
  next
    case 8 then show ?thesis using k(3,4) basic fl k(2)
      by (auto simp: phase_name_online_def phase_names_def)
  qed
qed

lemma phase_name_basic_spec:
  assumes "0 \<le> p" "p < 1"
  shows "phase_name_basic p = phase_name_spec p"
proof -
  have "0 \<le> \<lfloor>8 * p\<rfloor>" "\<lfloor>8 * p\<rfloor> < 8"
    using assms by (simp_all add: floor_less_iff)
  then show ?thesis
    using assms by (simp add: phase_name_basic_def phase_name_spec_def phase_idx_floor)
qed

text \<open>
  C8 fails on the code three days after the reference new moon (\<open>dt\<close> = 2000-01-09 18:14
  UTC). The phase fraction \<open>3/29.53059\<close> lies in the first of the eight equal buckets,
  \<open>[0, 0.125)\<close>, whose name is New Moon; \<open>calculate_basic_astronomy\<close> reports New Moon
  and \<open>calculate_astronomy_data\<close> reports Waxing Crescent.
\<close>

theorem phase_names_disagree:
  "0 \<le> moon_phase_float 3 \<and> moon_phase_float 3 < 0.125
   \<and> days_since_new_moon (new_moon_epoch + 3 * usec_per_day) = 3
   \<and> phase_name_spec (moon_phase_float 3) = ''New Moon''
   \<and> moon_phase (calculate_basic_astronomy (new_moon_epoch + 3 * usec_per_day)) = ''New Moon''
   \<and> moon_phase (calculate_astronomy_data (new_moon_epoch + 3 * usec_per_day))
       = ''Waxing Crescent''"
  by (simp add: calculate_astronomy_data_def calculate_basic_astronomy_def Let_def
      days_since_new_moon_def moon_phase_float_def py_fmod_def phase_name_online_def
      phase_name_basic_def phase_name_spec_def phase_idx_def py_int_def phase_names_def
      lunar_month_def usec_per_day_def)

subsection \<open>Moon illumination\<close>

lemma illumination_first_half:
  assumes "0 \<le> p" "p \<le> 1/2"
  shows "illumination p = 100 - 200 * p"
  using assms by (simp add: illumination_def Let_def)

lemma illumination_second_half:
  assumes "1/2 < p" "p < 1"
  shows "illumination p = triangular_spec p"
  using assms by (simp add: illumination_def triangular_spec_def Let_def)

text \<open>
  C3 fails on the code at the reference new moon itself (\<open>dt\<close> = 2000-01-06 18:14 UTC,
  zero days since the epoch, phase fraction 0): the triangular function of the claim gives 0
  there, both astronomy functions report the phase New Moon with an illumination of 100.
\<close>

theorem new_moon_illumination:
  "moon_phase_float (days_since_new_moon new_moon_epoch) = 0
   \<and> triangular_spec 0 = 0
   \<and> moon_phase (calculate_astronomy_data new_moon_epoch) = ''New Moon''
   \<and> moon_illumination_pct (calculate_astronomy_data new_moon_epoch) = 100
   \<and> moon_phase (calculate_basic_astronomy new_moon_epoch) = ''New Moon''
   \<and> moon_illumination_pct (calculate_basic_astronomy new_moon_epoch) = 100"
  by (simp add: calculate_astronomy_data_def calculate_basic_astronomy_def Let_def
      days_since_new_moon_def moon_phase_float_def py_fmod_def phase_name_online_def
      phase_name_basic_def phase_idx_def py_int_def phase_names_def illumination_def
      triangular_spec_def py_round_def round_half_even_def)

subsection \<open>Scoring of observation windows\<close>



lemma py_round_tenths: "py_round (of_int n / 10) 1 = of_int n / 10"
  by (simp add: py_round_def round_half_even_def)











subsection \<open>Fusion\<close>

lemma map_of_dict_set: "map_of (dict_set k v d) k' = (if k' = k then Some v else map_of d k')"
  by (induction d) auto

lemma keys_dict_set: "map_of d k \<noteq> None \<Longrightarrow> map fst (dict_set k v d) = map fst d"
  by (induction d) (auto split: if_splits)

lemma local_step_obj:
  "local_step (JObj l) key m =
     Inr (case map_of l key of
            Some v \<Rightarrow> if v \<noteq> JNull then dict_set key v m else m
          | None \<Rightarrow> m)"
  by (simp add: local_step_def split: option.splits)

lemma online_step_obj:
  assumes "key \<in> set online_keys"
  shows "online_step (JObj c) key m =
           Inr (case map_of c key of Some v \<Rightarrow> dict_set key v m | None \<Rightarrow> m)"
  using assms by (simp add: online_step_def split: option.splits)

lemma fill_step_obj:
  "fill_step (JObj c) key m =
     Inr (if map_of m key = Some JNull
          then (case map_of c key of Some v \<Rightarrow> dict_set key v m | None \<Rightarrow> m)
          else m)"
  by (simp add: fill_step_def split: option.splits)


lemma for_keys_local_obj:
  assumes "\<forall>k \<in> set ks. map_of m k \<noteq> None"
  shows "\<exists>m'. for_keys (local_step (JObj l)) ks m = Inr m' \<and> map fst m' = map fst m
           \<and> (\<forall>k. map_of m' k =
                 (if k \<in> set ks \<and> map_of l k \<noteq> None \<and> map_of l k \<noteq> Some JNull
                  then map_of l k else map_of m k))"
  using assms
proof (induction ks arbitrary: m)
  case Nil
  then show ?case by simp
next
  case (Cons key keys)
  define m1 where "m1 = (case map_of l key of
      Some v \<Rightarrow> if v \<noteq> JNull then dict_set key v m else m | None \<Rightarrow> m)"
  have step: "for_keys (local_step (JObj l)) (key # keys) m = for_keys (local_step (JObj l)) keys m1"
    by (simp add: local_step_obj m1_def)
  have key_in: "map_of m key \<noteq> None"
    using Cons.prems by simp
  have keys1: "map fst m1 = map fst m"
    using key_in by (simp add: m1_def keys_dict_set split: option.splits)
  have look1: "map_of m1 k = (if k = key \<and> map_of l k \<noteq> None \<and> map_of l k \<noteq> Some JNull
                               then map_of l k else map_of m k)" for k
    by (auto simp: m1_def map_of_dict_set split: option.splits)
  have dom1: "\<forall>k \<in> set keys. map_of m1 k \<noteq> None"
    using Cons.prems by (auto simp: look1)
  obtain m' where m': "for_keys (local_step (JObj l)) keys m1 = Inr m'" "map fst m' = map fst m1"
    and look': "\<And>k. map_of m' k =
         (if k \<in> set keys \<and> map_of l k \<noteq> None \<and> map_of l k \<noteq> Some JNull
          then map_of l k else map_of m1 k)"
    using Cons.IH [OF dom1] by blast
  have "map_of m' k = (if k \<in> set (key # keys) \<and> map_of l k \<noteq> None \<and> map_of l k \<noteq> Some JNull
                  then map_of l k else map_of m k)" for k
    unfolding look' look1 by auto
  then show ?case using step m' keys1 by simp
qed


lemma for_keys_online_obj:
  assumes "\<forall>k \<in> set ks. map_of m k \<noteq> None" "set ks \<subseteq> set online_keys"
  shows "\<exists>m'. for_keys (online_step (JObj c)) ks m = Inr m' \<and> map fst m' = map fst m
           \<and> (\<forall>k. map_of m' k =
                 (if k \<in> set ks \<and> map_of c k \<noteq> None then map_of c k else map_of m k))"
  using assms
proof (induction ks arbitrary: m)
  case Nil
  then show ?case by simp
next
  case (Cons key keys)
  define m1 where "m1 = (case map_of c key of Some v \<Rightarrow> dict_set key v m | None \<Rightarrow> m)"
  have "key \<in> set online_keys"
    using Cons.prems(2) by simp
  then have step: "for_keys (online_step (JObj c)) (key # keys) m
                     = for_keys (online_step (JObj c)) keys m1"
    by (simp add: online_step_obj m1_def)
  have key_in: "map_of m key \<noteq> None"
    using Cons.prems by simp
  have keys1: "map fst m1 = map fst m"
    using key_in by (simp add: m1_def keys_dict_set split: option.splits)
  have look1: "map_of m1 k = (if k = key \<and> map_of c k \<noteq> None then map_of c k else map_of m k)"
    for k
    by (auto simp: m1_def map_of_dict_set split: option.splits)
  have dom1: "\<forall>k \<in> set keys. map_of m1 k \<noteq> None"
    using Cons.prems by (auto simp: look1)
  have sub: "set keys \<subseteq> set online_keys"
    using Cons.prems(2) by simp
  obtain m' where m': "for_keys (online_step (JObj c)) keys m1 = Inr m'" "map fst m' = map fst m1"
    and look': "\<And>k. map_of m' k =
         (if k \<in> set keys \<and> map_of c k \<noteq> None then map_of c k else map_of m1 k)"
    using Cons.IH [OF dom1 sub] by blast
  have "map_of m' k = (if k \<in> set (key # keys) \<and> map_of c k \<noteq> None
                       then map_of c k else map_of m k)" for k
    unfolding look' look1 by auto
  then show ?case using step m' keys1 by simp
qed

lemma for_keys_fill_obj:
  assumes "\<forall>k \<in> set ks. map_of m k \<noteq> None"
  shows "\<exists>m'. for_keys (fill_step (JObj c)) ks m = Inr m' \<and> map fst m' = map fst m
           \<and> (\<forall>k. map_of m' k =
                 (if k \<in> set ks \<and> map_of m k = Some JNull \<and> map_of c k \<noteq> None
                  then map_of c k else map_of m k))"
  using assms
proof (induction ks arbitrary: m)
  case Nil
  then show ?case by simp
next
  case (Cons key keys)
  define m1 where "m1 = (if map_of m key = Some JNull
      then (case map_of c key of Some v \<Rightarrow> dict_set key v m | None \<Rightarrow> m) else m)"
  have step: "for_keys (fill_step (JObj c)) (key # keys) m = for_keys (fill_step (JObj c)) keys m1"
    by (simp add: fill_step_obj m1_def)
  have key_in: "map_of m key \<noteq> None"
    using Cons.prems by simp
  have keys1: "map fst m1 = map fst m"
    using key_in by (simp add: m1_def keys_dict_set split: option.splits)
  have look1: "map_of m1 k = (if k = key \<and> map_of m k = Some JNull \<and> map_of c k \<noteq> None
                               then map_of c k else map_of m k)" for k
    by (auto simp: m1_def map_of_dict_set split: option.splits)
  have dom1: "\<forall>k \<in> set keys. map_of m1 k \<noteq> None"
    using Cons.prems by (auto simp: look1)
  obtain m' where m': "for_keys (fill_step (JObj c)) keys m1 = Inr m'" "map fst m' = map fst m1"
    and look': "\<And>k. map_of m' k =
         (if k \<in> set keys \<and> map_of m1 k = Some JNull \<and> map_of c k \<noteq> None
          then map_of c k else map_of m1 k)"
    using Cons.IH [OF dom1] by blast
  have "map_of m' k = (if k \<in> set (key # keys) \<and> map_of m k = Some JNull \<and> map_of c k \<noteq> None
                       then map_of c k else map_of m k)" for k
    unfolding look' look1 by auto
  then show ?case using step m' keys1 by simp
qed


lemma map_of_key_present: "k \<in> set (map fst m) \<Longrightarrow> map_of m k \<noteq> None"
  by (induction m) auto

lemma merged_init_keys:
  "map fst merged_init = local_keys @ online_keys"
  by (simp add: merged_init_def local_keys_def online_keys_def)

lemma merged_init_local: "k \<in> set local_keys \<Longrightarrow> map_of merged_init k = Some JNull"
  by (auto simp: merged_init_def local_keys_def)

lemma merged_init_online:
  "k \<in> set online_keys \<Longrightarrow> map_of merged_init k = Some (dict_get merged_init k JNull)"
  by (auto simp: merged_init_def online_keys_def dict_get_def)

lemma local_online_disjoint: "k \<in> set local_keys \<Longrightarrow> k \<notin> set online_keys"
  by (auto simp: local_keys_def online_keys_def)

text \<open>
  C1 (as amended). For every pair of fresh readings (both \<open>ok\<close>, each with a \<open>current\<close>
  object) the merge returns a record with exactly the nine weather keys, so without any
  provenance entry; each of the six direct measurements is the local value when the local
  reading has a non-null one and otherwise the online value (null when that is missing
  too); cloud cover, visibility and conditions are the online values whenever the online
  reading has the key, and otherwise keep their initial value.
\<close>

theorem merge_precedence:
  assumes "truthy (dict_get local_data ''ok'' JNull)"
    and "map_of local_data ''current'' = Some (JObj l)"
    and "truthy (dict_get online_data ''ok'' JNull)"
    and "map_of online_data ''current'' = Some (JObj c)"
  shows "\<exists>merged. merge_weather_sources online_data local_data = Inr merged
           \<and> map fst merged = map fst merged_init
           \<and> (\<forall>k \<in> set local_keys.
                 map_of merged k =
                   (if map_of l k \<noteq> None \<and> map_of l k \<noteq> Some JNull then map_of l k
                    else Some (dict_get c k JNull)))
           \<and> (\<forall>k \<in> set online_keys.
                 map_of merged k = Some (dict_get c k (dict_get merged_init k JNull)))"
proof -
  have dom0: "\<forall>k \<in> set local_keys. map_of merged_init k \<noteq> None"
    by (simp add: merged_init_local)
  obtain m1 where m1: "for_keys (local_step (JObj l)) local_keys merged_init = Inr m1"
      "map fst m1 = map fst merged_init"
    and look1: "\<And>k. map_of m1 k =
         (if k \<in> set local_keys \<and> map_of l k \<noteq> None \<and> map_of l k \<noteq> Some JNull
          then map_of l k else map_of merged_init k)"
    using for_keys_local_obj [OF dom0] by blast
  have dom1: "\<forall>k \<in> set online_keys. map_of m1 k \<noteq> None"
    by (rule ballI, rule map_of_key_present) (simp add: m1(2) merged_init_keys)
  obtain m2 where m2: "for_keys (online_step (JObj c)) online_keys m1 = Inr m2"
      "map fst m2 = map fst m1"
    and look2: "\<And>k. map_of m2 k =
         (if k \<in> set online_keys \<and> map_of c k \<noteq> None then map_of c k else map_of m1 k)"
    using for_keys_online_obj [OF dom1 subset_refl] by blast
  have dom2: "\<forall>k \<in> set (map fst m2). map_of m2 k \<noteq> None"
    by (rule ballI, rule map_of_key_present)
  obtain m3 where m3: "for_keys (fill_step (JObj c)) (map fst m2) m2 = Inr m3"
      "map fst m3 = map fst m2"
    and look3: "\<And>k. map_of m3 k =
         (if k \<in> set (map fst m2) \<and> map_of m2 k = Some JNull \<and> map_of c k \<noteq> None
          then map_of c k else map_of m2 k)"
    using for_keys_fill_obj [OF dom2] by blast
  have run: "merge_weather_sources online_data local_data = Inr m3"
    using assms m1(1) m2(1) m3(1) by (simp add: merge_weather_sources_def dict_get_def)
  have keys: "map fst m3 = map fst merged_init"
    using m1(2) m2(2) m3(2) by simp
  have in_keys: "k \<in> set local_keys \<Longrightarrow> k \<in> set (map fst m2)" for k
    by (simp add: m2(2) m1(2) merged_init_keys)
  have loc: "map_of m3 k =
               (if map_of l k \<noteq> None \<and> map_of l k \<noteq> Some JNull then map_of l k
                else Some (dict_get c k JNull))" if "k \<in> set local_keys" for k
    using that local_online_disjoint [OF that] in_keys [OF that] merged_init_local [OF that]
    unfolding look3 look2 look1
    by (auto simp: dict_get_def)
  have onl: "map_of m3 k = Some (dict_get c k (dict_get merged_init k JNull))"
    if "k \<in> set online_keys" for k
  proof -
    have "k \<notin> set local_keys"
      using that local_online_disjoint by blast
    then show ?thesis
      using that merged_init_online [OF that]
      unfolding look3 look2 look1
      by (auto simp: dict_get_def [of c])
  qed
  show ?thesis
    using run keys loc onl by blast
qed

text \<open>
  The amended C1 on the example: the local channel reports 10 degrees, the online channel 20
  degrees and a cloud cover of 30; the fused temperature is 10 and the fused cloud cover 30.
\<close>

theorem merge_precedence_witness:
  "truthy (dict_get ex_local_ok ''ok'' JNull)
   \<and> map_of ex_local_ok ''current''
       = Some (JObj [(''temperature_c'', JNum 10), (''humidity_pct'', JNum 55),
                     (''dewpoint_c'', JNum 1.3)])
   \<and> truthy (dict_get ex_online_ok ''ok'' JNull)
   \<and> map_of ex_online_ok ''current''
       = Some (JObj [(''temperature_c'', JNum 20), (''humidity_pct'', JNum 70),
                     (''cloud_cover_pct'', JNum 30), (''visibility_km'', JNum 10),
                     (''conditions'', JStr ''scattered clouds'')])
   \<and> (\<exists>merged. merge_weather_sources ex_online_ok ex_local_ok = Inr merged
         \<and> map fst merged = map fst merged_init
         \<and> map_of merged ''temperature_c'' = Some (JNum 10)
         \<and> map_of merged ''pressure_hpa'' = Some JNull
         \<and> map_of merged ''cloud_cover_pct'' = Some (JNum 30))"
proof -
  let ?l = "[(''temperature_c'', JNum 10), (''humidity_pct'', JNum 55), (''dewpoint_c'', JNum 1.3)]"
  let ?c = "[(''temperature_c'', JNum 20), (''humidity_pct'', JNum 70),
             (''cloud_cover_pct'', JNum 30), (''visibility_km'', JNum 10),
             (''conditions'', JStr ''scattered clouds'')]"
  have h1: "truthy (dict_get ex_local_ok ''ok'' JNull)"
    by (simp add: ex_local_ok_def dict_get_def)
  have h2: "map_of ex_local_ok ''current'' = Some (JObj ?l)"
    by (simp add: ex_local_ok_def)
  have h3: "truthy (dict_get ex_online_ok ''ok'' JNull)"
    by (simp add: ex_online_ok_def dict_get_def)
  have h4: "map_of ex_online_ok ''current'' = Some (JObj ?c)"
    by (simp add: ex_online_ok_def)
  obtain merged where m: "merge_weather_sources ex_online_ok ex_local_ok = Inr merged"
      "map fst merged = map fst merged_init"
      "\<forall>k \<in> set local_keys.
         map_of merged k =
           (if map_of ?l k \<noteq> None \<and> map_of ?l k \<noteq> Some JNull then map_of ?l k
            else Some (dict_get ?c k JNull))"
      "\<forall>k \<in> set online_keys.
         map_of merged k = Some (dict_get ?c k (dict_get merged_init k JNull))"
    using merge_precedence [OF h1 h2 h3 h4] by blast
  have t: "map_of merged ''temperature_c'' = Some (JNum 10)"
    using m(3) by (simp add: local_keys_def)
  have p: "map_of merged ''pressure_hpa'' = Some JNull"
    using m(3) by (simp add: local_keys_def dict_get_def)
  have cl: "map_of merged ''cloud_cover_pct'' = Some (JNum 30)"
    using m(4) by (simp add: online_keys_def dict_get_def)
  show ?thesis
    using h1 h2 h3 h4 m(1,2) t p cl by blast
qed

text \<open>
  C1 as stated fails on the same example: the fused record is the nine weather fields and
  nothing else, so \<open>provenance\<close> is not a key of it and reading
  \<open>provenance.temperature_c\<close> raises instead of yielding \<open>"local"\<close>.
\<close>

theorem merge_has_no_provenance:
  "merge_weather_sources ex_online_ok ex_local_ok =
     Inr [(''temperature_c'', JNum 10), (''humidity_pct'', JNum 55), (''pressure_hpa'', JNull),
          (''dewpoint_c'', JNum 1.3), (''wind_speed_kmh'', JNull),
          (''wind_direction_deg'', JNull), (''cloud_cover_pct'', JNum 30),
          (''visibility_km'', JNum 10), (''conditions'', JStr ''scattered clouds'')]
   \<and> ebind (merge_weather_sources ex_online_ok ex_local_ok)
         (\<lambda>merged. subscr (JObj merged) ''provenance'') = Inl KeyError"
  by (simp add: merge_weather_sources_def ex_online_ok_def ex_local_ok_def dict_get_def
      local_keys_def online_keys_def merged_init_def local_step_def online_step_def
      fill_step_def)

subsection \<open>Composition under a failed online channel\<close>

lemma local_step_effect:
  "local_step lc key m = Inl TypeError
   \<or> (\<exists>m'. local_step lc key m = Inr m' \<and> (\<forall>k. k \<noteq> key \<longrightarrow> map_of m' k = map_of m k))"
  by (cases lc) (auto simp: local_step_def map_of_dict_set split: option.splits)

lemma for_keys_local_effect:
  "for_keys (local_step lc) ks m = Inl TypeError
   \<or> (\<exists>m'. for_keys (local_step lc) ks m = Inr m'
         \<and> (\<forall>k. k \<notin> set ks \<longrightarrow> map_of m' k = map_of m k))"
proof (induction ks arbitrary: m)
  case Nil
  then show ?case by simp
next
  case (Cons key keys)
  show ?case
    using local_step_effect [of lc key m]
  proof
    assume "local_step lc key m = Inl TypeError"
    then show ?thesis by simp
  next
    assume "\<exists>m'. local_step lc key m = Inr m' \<and> (\<forall>k. k \<noteq> key \<longrightarrow> map_of m' k = map_of m k)"
    then obtain m1 where m1: "local_step lc key m = Inr m1"
        "\<forall>k. k \<noteq> key \<longrightarrow> map_of m1 k = map_of m k"
      by blast
    show ?thesis
      using Cons.IH [of m1] m1 by auto
  qed
qed

lemma merge_without_online:
  assumes "\<not> truthy (dict_get online_data ''ok'' JNull)"
  shows "merge_weather_sources online_data local_data = Inl TypeError
         \<or> (\<exists>merged. merge_weather_sources online_data local_data = Inr merged
               \<and> map_of merged ''cloud_cover_pct'' = Some JNull)"
proof (cases "truthy (dict_get local_data ''ok'' JNull) \<and> map_of local_data ''current'' \<noteq> None")
  case True
  have "''cloud_cover_pct'' \<notin> set local_keys"
    by (simp add: local_keys_def)
  moreover have "map_of merged_init ''cloud_cover_pct'' = Some JNull"
    by (simp add: merged_init_def)
  ultimately show ?thesis
    using for_keys_local_effect [of "dict_get local_data ''current'' JNull" local_keys merged_init]
      True assms
    by (auto simp: merge_weather_sources_def)
next
  case False
  then show ?thesis
    using assms by (auto simp: merge_weather_sources_def merged_init_def)
qed

lemma online_failure_aborts:
  assumes "\<not> truthy (dict_get online_data ''ok'' JNull)"
  shows "generate_combined_forecast fromisoformat now online_data local_data = Inl TypeError"
proof -
  have w: "calculate_observation_windows fromisoformat now online_data local_data a = Inr []" for a :: astronomy_basic
    using assms by (simp add: calculate_observation_windows_def)
  have q: "sky_quality_estimate JNull v = Inl TypeError" for v
    by (simp add: sky_quality_estimate_def py_lt_def)
  show ?thesis
    using merge_without_online [OF assms, of local_data]
    by (auto simp: generate_combined_forecast_def Let_def w q dict_get_def)
qed

text \<open>
  C7 fails on the code: with the online fetch failed and the local fetch succeeded, the
  merged record keeps \<open>cloud_cover_pct = None\<close> (the key is present, so the default
  of \<open>.get("cloud_cover_pct", 50)\<close> is not taken), the comparison
  \<open>cloud_cover < 20\<close> raises \<open>TypeError\<close>, and no document is produced.
\<close>

theorem compose_aborts_without_online:
  "\<not> truthy (dict_get ex_online_failed ''ok'' JNull)
   \<and> truthy (dict_get ex_local_ok ''ok'' JNull)
   \<and> ebind (merge_weather_sources ex_online_failed ex_local_ok)
        (\<lambda>merged. Inr (dict_get merged ''cloud_cover_pct'' (JNum 50))) = Inr JNull
   \<and> generate_combined_forecast ex_fromisoformat ex_now ex_online_failed ex_local_ok
       = Inl TypeError"
  by (simp add: generate_combined_forecast_def Let_def merge_weather_sources_def
      calculate_observation_windows_def sky_quality_estimate_def py_lt_def
      ex_online_failed_def ex_local_ok_def dict_get_def local_keys_def merged_init_def
      local_step_def)

subsection \<open>The forecast sequence of the online reading\<close>









subsection \<open>Updates of the current-weather record\<close>

lemma dict_set_not_empty: "dict_set k v d \<noteq> []"
  by (cases d) (auto split: if_splits)

lemma py_float_errors:
  "py_float f v = Inl e \<Longrightarrow> e = OverflowError \<or> e = ValueError \<or> e = TypeError"
  by (cases v) (auto split: if_splits option.splits)

lemma normalize_step_overflows:
  "overflows L f item \<Longrightarrow> normalize_step L f item acc = Inl OverflowError"
  by (simp add: overflows_def recognized_def normalize_step_def)

lemma normalize_step_returns:
  assumes "\<not> overflows L f item"
  shows "\<exists>acc'. normalize_step L f item acc = Inr acc'
           \<and> (acc' \<noteq> [] \<longleftrightarrow> acc \<noteq> [] \<or> extracted L f item)"
proof (cases "py_float f (snd item)")
  case (Inl e)
  then have "recognized L (fst item) \<Longrightarrow> e = ValueError \<or> e = TypeError"
    using assms py_float_errors [of f "snd item" e] by (auto simp: overflows_def)
  then show ?thesis
    using Inl by (auto simp: normalize_step_def extracted_def recognized_def)
next
  case (Inr x)
  then show ?thesis
    by (auto simp: normalize_step_def extracted_def recognized_def dict_set_not_empty)
qed

lemma normalize_items_raises:
  "list_ex (overflows L f) d \<Longrightarrow> normalize_items L f d acc = Inl OverflowError"
proof (induction d arbitrary: acc)
  case Nil
  then show ?case by simp
next
  case (Cons item d)
  show ?case
  proof (cases "overflows L f item")
    case True
    then show ?thesis by (simp add: normalize_step_overflows)
  next
    case False
    then obtain acc' where "normalize_step L f item acc = Inr acc'"
      using normalize_step_returns by blast
    then show ?thesis
      using Cons False by simp
  qed
qed

lemma normalize_items_returns:
  "\<not> list_ex (overflows L f) d \<Longrightarrow>
     \<exists>n. normalize_items L f d acc = Inr n
        \<and> (n \<noteq> [] \<longleftrightarrow> acc \<noteq> [] \<or> list_ex (extracted L f) d)"
proof (induction d arbitrary: acc)
  case Nil
  then show ?case by simp
next
  case (Cons item d)
  then have no: "\<not> overflows L f item" "\<not> list_ex (overflows L f) d"
    by simp_all
  obtain acc' where step: "normalize_step L f item acc = Inr acc'"
      "acc' \<noteq> [] \<longleftrightarrow> acc \<noteq> [] \<or> extracted L f item"
    using normalize_step_returns [OF no(1)] by blast
  obtain n where "normalize_items L f d acc' = Inr n"
      "n \<noteq> [] \<longleftrightarrow> acc' \<noteq> [] \<or> list_ex (extracted L f) d"
    using Cons.IH [OF no(2)] by blast
  then show ?case
    using step by auto
qed

lemma parse_json_weather_Some:
  "(\<exists>n. parse_json_weather L f data = Some n)
     \<longleftrightarrow> (\<exists>d. data = JObj d \<and> list_ex (extracted L f) d \<and> \<not> list_ex (overflows L f) d)"
proof (cases data)
  case (JObj d)
  show ?thesis
  proof (cases "list_ex (overflows L f) d")
    case True
    then show ?thesis
      using JObj normalize_items_raises [of L f d "[]"]
      by (simp add: parse_json_weather_def)
  next
    case False
    then obtain n where "normalize_items L f d [] = Inr n"
        "n \<noteq> [] \<longleftrightarrow> list_ex (extracted L f) d"
      using normalize_items_returns [of L f d "[]"] by auto
    then show ?thesis
      using JObj False by (auto simp: parse_json_weather_def)
  qed
qed (simp_all add: parse_json_weather_def)

lemma dict_update_other:
  "k \<notin> fst ` set n \<Longrightarrow> map_of (dict_update cur n) k = map_of cur k"
  by (induction cur n rule: dict_update.induct) (auto simp: map_of_dict_set)

lemma write_weather_keeps:
  assumes "map_of data k = Some v"
  shows "\<exists>new. write_weather now data = Some new \<and> map_of new k = Some v"
  using assms by (auto simp: write_weather_def map_of_dict_set)

text \<open>
  What \<open>update_from_json\<close> does on every input. It raises only what the decoder raises
  beyond \<open>JSONDecodeError\<close>. It returns \<open>True\<close> exactly when the input decodes to an
  object with an extracted item and without an overflowing one; otherwise the stored record
  is left as it was; on \<open>True\<close> the stored record is written and every stored field whose
  key is not normalized keeps its value.
\<close>

lemma update_from_json_effect:
  "(\<forall>e. update_from_json json_loads L f now s store = Inl e
        \<longrightarrow> json_loads s = Inl e \<and> e \<noteq> JSONDecodeError)
   \<and> (\<forall>flag store'. update_from_json json_loads L f now s store = Inr (flag, store') \<longrightarrow>
        (flag \<longleftrightarrow> (\<exists>d. json_loads s = Inr (JObj d) \<and> list_ex (extracted L f) d
                        \<and> \<not> list_ex (overflows L f) d))
        \<and> (\<not> flag \<longrightarrow> store' = store)
        \<and> (flag \<longrightarrow>
             (\<exists>data n new. json_loads s = Inr data \<and> parse_json_weather L f data = Some n
                \<and> store' = Some new
                \<and> (\<forall>k v. map_of (read_current_weather store) k = Some v \<and> k \<notin> fst ` set n
                         \<longrightarrow> map_of new k = Some v))))"
proof (cases "json_loads s")
  case (Inl e)
  then show ?thesis by (auto simp: update_from_json_def)
next
  case (Inr data)
  show ?thesis
  proof (cases "parse_json_weather L f data")
    case None
    then have no: "\<not> (\<exists>d. data = JObj d \<and> list_ex (extracted L f) d
                          \<and> \<not> list_ex (overflows L f) d)"
      using parse_json_weather_Some [of L f data] by simp
    have "update_from_json json_loads L f now s store = Inr (False, store)"
      using Inr None by (simp add: update_from_json_def)
    then show ?thesis using Inr no by auto
  next
    case (Some n)
    then have yes: "\<exists>d. data = JObj d \<and> list_ex (extracted L f) d \<and> \<not> list_ex (overflows L f) d"
      using parse_json_weather_Some [of L f data] by blast
    let ?upd = "dict_update (read_current_weather store) n"
    have run: "update_from_json json_loads L f now s store = Inr (True, write_weather now ?upd)"
      using Inr Some by (simp add: update_from_json_def Let_def)
    obtain new where new: "write_weather now ?upd = Some new"
      by (simp add: write_weather_def)
    have keep: "map_of new k = Some v"
      if "map_of (read_current_weather store) k = Some v" "k \<notin> fst ` set n" for k v
    proof -
      have "map_of ?upd k = Some v"
        using that by (simp add: dict_update_other)
      then show ?thesis
        using write_weather_keeps [of ?upd k v now] new by auto
    qed
    show ?thesis
      using run new keep yes Inr Some by auto
  qed
qed

lemma update_from_json_examples:
  "update_from_json ex_json_loads ascii_lower ex_float_of_string ex_now
     ''{\"Temp\": \"12.5\", \"rh\": 64, \"note\": \"calm\"}'' ex_store
     = Inr (True, Some [(''timestamp'', JStr ''2026-11-04T11:55:00+00:00''),
                        (''temperature_c'', JNum 12.5), (''pressure_hpa'', JNum 1013),
                        (''station_name'', JStr ''DORO Lab Simulated Sensors''),
                        (''humidity_pct'', JNum 64)])"
  "update_from_json ex_json_loads ascii_lower ex_float_of_string ex_now
     ''{\"note\": \"calm\", \"temp\": null}'' ex_store = Inr (False, ex_store)"
  "update_from_json ex_json_loads ascii_lower ex_float_of_string ex_now ''temp=12.5'' ex_store
     = Inr (False, ex_store)"
  by (simp_all add: update_from_json_def ex_json_loads_def ex_float_of_string_def ex_store_def
      parse_json_weather_def normalize_step_def Let_def target_key_def ascii_lower_def
      lower_char_def field_map_def read_current_weather_def write_weather_def
      float_overflow_bound_def)

lemma ex_overflow: "py_float f (JNum (10 ^ 400)) = Inl OverflowError"
  by (simp add: float_overflow_bound_def)

text \<open>
  C9 fails on the code. The post \<open>{"temp": 5, "rh": 10^400}\<close> is valid JSON and its
  \<open>temp\<close> is a recognized key with a numeric value, which the loop extracts; then
  \<open>float\<close> of the humidity raises \<open>OverflowError\<close>, which the inner handler does not
  catch, the parse returns \<open>None\<close>, and \<open>update_from_json\<close> returns \<open>False\<close> without
  writing the record.
\<close>

theorem update_from_json_overflow_discards:
  "ex_overflow_loads ex_overflow_post
     = Inr (JObj [(''temp'', JNum 5), (''rh'', JNum (10 ^ 400))])
   \<and> extracted ascii_lower ex_float_of_string (''temp'', JNum 5)
   \<and> normalize_step ascii_lower ex_float_of_string (''temp'', JNum 5) []
       = Inr [(''temperature_c'', JNum 5)]
   \<and> py_float ex_float_of_string (JNum (10 ^ 400)) = Inl OverflowError
   \<and> parse_json_weather ascii_lower ex_float_of_string
        (JObj [(''temp'', JNum 5), (''rh'', JNum (10 ^ 400))]) = None
   \<and> update_from_json ex_overflow_loads ascii_lower ex_float_of_string ex_now
        ex_overflow_post ex_store = Inr (False, ex_store)"
  by (simp add: ex_overflow_loads_def update_from_json_def parse_json_weather_def
      normalize_step_def extracted_def recognized_def target_key_def ascii_lower_def
      lower_char_def field_map_def ex_overflow float_overflow_bound_def)

subsection \<open>Image ingestion\<close>



lemma date_dirs_length: "length (date_dirs t) = 3"
  by (simp add: date_dirs_def split: prod.splits)

lemma archive_path_length: "length (archive_path t n) = 5"
  by (simp add: archive_path_def ARCHIVE_DIR_def date_dirs_length)






lemma target_paths_differ:
  "LATEST_PATH \<noteq> gallery_path n"
  "LATEST_PATH \<noteq> archive_path t n"
  "gallery_path m \<noteq> archive_path t n"
  "gallery_path m \<noteq> LATEST_PATH"
  "archive_path t n \<noteq> LATEST_PATH"
  "archive_path t n \<noteq> gallery_path m"
proof -
  have l: "length LATEST_PATH = 1" "length (gallery_path k) = 2" "length (archive_path t n) = 5"
    for k
    by (simp_all add: LATEST_PATH_def gallery_path_def IMAGES_DIR_def archive_path_length)
  have d: "x \<noteq> y" if "length x \<noteq> length y" for x y :: path
    using that by auto
  show "LATEST_PATH \<noteq> gallery_path n" "LATEST_PATH \<noteq> archive_path t n"
    "gallery_path m \<noteq> archive_path t n" "gallery_path m \<noteq> LATEST_PATH"
    "archive_path t n \<noteq> LATEST_PATH" "archive_path t n \<noteq> gallery_path m"
    by (rule d, simp add: l)+
qed



lemma ex_dates:
  "date_dirs ex_now = [''2026'', ''11'', ''04'']"
  "date_dirs (ex_now + 1000000) = [''2026'', ''11'', ''04'']"
  "date_dirs (ex_now + usec_per_day) = [''2026'', ''11'', ''05'']"
  "isoformat ex_now = ''2026-11-04T12:00:00+00:00''"
  "isoformat (ex_now + 1000000) = ''2026-11-04T12:00:01+00:00''"
  "isoformat (ex_now + usec_per_day) = ''2026-11-05T12:00:00+00:00''"
  by code_simp+




text \<open>
  C6 (as amended). A missing or zero-byte upload is left alone: no file and no status record
  is written. Any other upload that does not already lie at its own archive or gallery
  destination stays where it is and is copied to \<open>archive/YYYY/MM/DD/name\<close> and to
  \<open>images/name\<close>; no other path changes (in particular no latest file is written), and
  the status record is overwritten with the event.
\<close>

theorem process_image_complete_effect:
  "((map_of (files sc) src = None \<or> (\<exists>f. map_of (files sc) src = Some f \<and> content f = []))
      \<longrightarrow> process_image_complete now peer src sc = sc)
   \<and> (\<forall>f. map_of (files sc) src = Some f \<and> content f \<noteq> []
           \<and> src \<noteq> archive_path now (path_name src) \<and> src \<noteq> gallery_path (path_name src)
        \<longrightarrow> files (process_image_complete now peer src sc)
              = dict_set (gallery_path (path_name src)) f
                  (dict_set (archive_path now (path_name src)) f (files sc))
            \<and> map_of (files (process_image_complete now peer src sc)) src = Some f
            \<and> map_of (files (process_image_complete now peer src sc))
                 (archive_path now (path_name src)) = Some f
            \<and> map_of (files (process_image_complete now peer src sc))
                 (gallery_path (path_name src)) = Some f
            \<and> (\<forall>p. p \<noteq> archive_path now (path_name src) \<and> p \<noteq> gallery_path (path_name src)
                  \<longrightarrow> map_of (files (process_image_complete now peer src sc)) p
                        = map_of (files sc) p)
            \<and> status_file (process_image_complete now peer src sc)
                = Some \<lparr> last_event = ''image_received'',
                         timestamp = isoformat now,
                         last_filename = path_name src,
                         last_size_bytes = length (content f),
                         connection = ''active'',
                         receiver_address = Some peer \<rparr>)"
proof -
  have rejected: "process_image_complete now peer src sc = sc"
    if "map_of (files sc) src = None \<or> (\<exists>f. map_of (files sc) src = Some f \<and> content f = [])"
    using that by (auto simp: process_image_complete_def)
  have accepted:
    "files (process_image_complete now peer src sc)
       = dict_set (gallery_path (path_name src)) f
           (dict_set (archive_path now (path_name src)) f (files sc))
     \<and> status_file (process_image_complete now peer src sc)
         = Some \<lparr> last_event = ''image_received'', timestamp = isoformat now,
                  last_filename = path_name src, last_size_bytes = length (content f),
                  connection = ''active'', receiver_address = Some peer \<rparr>"
    if "map_of (files sc) src = Some f" "content f \<noteq> []"
      "src \<noteq> archive_path now (path_name src)" "src \<noteq> gallery_path (path_name src)" for f
    using that
    by (simp add: process_image_complete_def copy2_def Let_def map_of_dict_set update_status_def)
  show ?thesis
    using rejected accepted target_paths_differ
    by (auto simp: map_of_dict_set)
qed

text \<open>
  The amended C6 on the examples: an upload \<open>cam1.jpg\<close> of ten bytes in the FTP root, and
  a path at which nothing was uploaded.
\<close>

theorem process_image_complete_effect_witness:
  "map_of (files ex_upload_state) [''missing.jpg''] = None
   \<and> process_image_complete ex_now ''10.0.0.7:50314'' [''missing.jpg''] ex_upload_state
       = ex_upload_state
   \<and> map_of (files ex_upload_state) [''cam1.jpg''] = Some ex_image
   \<and> content ex_image \<noteq> []
   \<and> [''cam1.jpg''] \<noteq> archive_path ex_now (path_name [''cam1.jpg''])
   \<and> [''cam1.jpg''] \<noteq> gallery_path (path_name [''cam1.jpg''])
   \<and> files (process_image_complete ex_now ''10.0.0.7:50314'' [''cam1.jpg''] ex_upload_state)
       = [([''cam1.jpg''], ex_image),
          ([''archive'', ''2026'', ''11'', ''04'', ''cam1.jpg''], ex_image),
          ([''images'', ''cam1.jpg''], ex_image)]
   \<and> status_file (process_image_complete ex_now ''10.0.0.7:50314'' [''cam1.jpg''] ex_upload_state)
       = Some \<lparr> last_event = ''image_received'',
                timestamp = ''2026-11-04T12:00:00+00:00'',
                last_filename = ''cam1.jpg'',
                last_size_bytes = 10,
                connection = ''active'',
                receiver_address = Some ''10.0.0.7:50314'' \<rparr>"
proof -
  have h1: "map_of (files ex_upload_state) [''missing.jpg''] = None"
    by (simp add: ex_upload_state_def)
  have h2: "map_of (files ex_upload_state) [''cam1.jpg''] = Some ex_image"
    by (simp add: ex_upload_state_def)
  have h3: "content ex_image \<noteq> []" "length (content ex_image) = 10"
    by (simp_all add: ex_image_def)
  have h4: "[''cam1.jpg''] \<noteq> archive_path ex_now (path_name [''cam1.jpg''])"
      "[''cam1.jpg''] \<noteq> gallery_path (path_name [''cam1.jpg''])"
    by (simp_all add: archive_path_def gallery_path_def ARCHIVE_DIR_def IMAGES_DIR_def)
  have paths: "archive_path ex_now (path_name [''cam1.jpg''])
                 = [''archive'', ''2026'', ''11'', ''04'', ''cam1.jpg'']"
      "gallery_path (path_name [''cam1.jpg'']) = [''images'', ''cam1.jpg'']"
      "path_name [''cam1.jpg''] = ''cam1.jpg''"
      "archive_path ex_now ''cam1.jpg'' = [''archive'', ''2026'', ''11'', ''04'', ''cam1.jpg'']"
      "gallery_path ''cam1.jpg'' = [''images'', ''cam1.jpg'']"
    by (simp_all add: archive_path_def gallery_path_def ARCHIVE_DIR_def IMAGES_DIR_def
        path_name_def ex_dates)
  have fs: "dict_set [''images'', ''cam1.jpg''] ex_image
              (dict_set [''archive'', ''2026'', ''11'', ''04'', ''cam1.jpg''] ex_image
                 (files ex_upload_state))
            = [([''cam1.jpg''], ex_image),
               ([''archive'', ''2026'', ''11'', ''04'', ''cam1.jpg''], ex_image),
               ([''images'', ''cam1.jpg''], ex_image)]"
    by (simp add: ex_upload_state_def)
  show ?thesis
    using process_image_complete_effect
            [of ex_upload_state "[''missing.jpg'']" ex_now "''10.0.0.7:50314''"]
          process_image_complete_effect
            [of ex_upload_state "[''cam1.jpg'']" ex_now "''10.0.0.7:50314''"]
          h1 h2 h3 h4
    by (simp add: paths fs ex_dates)
qed

text \<open>
  C6 as stated fails on the code. The accepted upload \<open>cam1.jpg\<close> is archived and put in
  the gallery, and the latest file \<open>sky_latest_web.jpg\<close> is not written. An upload made
  into \<open>images/\<close> itself is archived, then the gallery copy raises (source and destination
  are the same file) and the status record is not written.
\<close>

theorem process_image_complete_no_latest:
  "files (process_image_complete ex_now ''10.0.0.7:50314'' [''cam1.jpg''] ex_upload_state)
     = [([''cam1.jpg''], ex_image),
        ([''archive'', ''2026'', ''11'', ''04'', ''cam1.jpg''], ex_image),
        ([''images'', ''cam1.jpg''], ex_image)]
   \<and> map_of (files (process_image_complete ex_now ''10.0.0.7:50314'' [''cam1.jpg'']
                       ex_upload_state)) LATEST_PATH = None
   \<and> process_image_complete ex_now ''10.0.0.7:50314'' [''images'', ''cam1.jpg'']
         ex_gallery_upload_state
       = \<lparr> files = [([''images'', ''cam1.jpg''], ex_image),
                    ([''archive'', ''2026'', ''11'', ''04'', ''cam1.jpg''], ex_image)],
           status_file = None \<rparr>"
  by (simp add: process_image_complete_def ex_upload_state_def ex_gallery_upload_state_def
      copy2_def Let_def path_name_def archive_path_def gallery_path_def ARCHIVE_DIR_def
      IMAGES_DIR_def LATEST_PATH_def update_status_def ex_dates ex_image_def)

end
